theory Spec2Isabelle
  imports
    Main
    "HOL-Library.Sublist"
    "HOL-Library.AList"
    "HOL-Library.List_Lexorder"
    "HOL-Library.Product_Lexorder"
begin

section \<open>Python strings\<close>

text \<open>
  A Python \<open>str\<close> is a sequence of Unicode code points; the flag glyphs of
  \<open>flags.json\<close> are pairs of code points above U+1F1E5, so a text is a list
  of natural numbers here, and \<open>lit\<close> reads an ASCII literal.
\<close>

type_synonym pystr = "nat list"

definition lit :: "string \<Rightarrow> pystr" where
  "lit s = map of_char s"

text \<open>\<open>str.isspace\<close> on one code point: the white space of the Unicode database.\<close>

definition isspace :: "nat \<Rightarrow> bool" where
  "isspace c \<longleftrightarrow>
     (9 \<le> c \<and> c \<le> 13) \<or> (28 \<le> c \<and> c \<le> 32) \<or> c = 133 \<or> c = 160 \<or> c = 5760 \<or>
     (8192 \<le> c \<and> c \<le> 8202) \<or> c = 8232 \<or> c = 8233 \<or> c = 8239 \<or> c = 8287 \<or> c = 12288"

text \<open>\<open>s.strip()\<close>: white space removed at both ends.\<close>

definition strip :: "pystr \<Rightarrow> pystr" where
  "strip s = rev (dropWhile isspace (rev (dropWhile isspace s)))"

text \<open>\<open>sub in s\<close>: \<open>sub\<close> occurs in \<open>s\<close> as a contiguous run.\<close>

fun contains :: "pystr \<Rightarrow> pystr \<Rightarrow> bool" where
  "contains sub [] = (sub = [])"
| "contains sub (c # cs) = (prefix sub (c # cs) \<or> contains sub cs)"

text \<open>
  \<open>s.replace(old, new)\<close> replaces every occurrence of \<open>old\<close>, scanning from the
  left and resuming after each replaced run. With an empty \<open>old\<close> Python puts
  \<open>new\<close> before every code point and at the end.
\<close>

function replace_all :: "pystr \<Rightarrow> pystr \<Rightarrow> pystr \<Rightarrow> pystr" where
  "replace_all old new [] = []"
| "replace_all old new (c # cs) =
     (if old \<noteq> [] \<and> prefix old (c # cs)
      then new @ replace_all old new (drop (length old) (c # cs))
      else c # replace_all old new cs)"
  by pat_completeness auto
termination
  by (relation "measure (\<lambda>(old, new, s). length s)") auto

definition py_replace :: "pystr \<Rightarrow> pystr \<Rightarrow> pystr \<Rightarrow> pystr" where
  "py_replace old new s =
     (if old = [] then new @ concat (map (\<lambda>c. c # new) s) else replace_all old new s)"

text \<open>\<open>sep.join(xs)\<close>.\<close>

fun join :: "pystr \<Rightarrow> pystr list \<Rightarrow> pystr" where
  "join sep [] = []"
| "join sep [x] = x"
| "join sep (x # y # ys) = x @ sep @ join sep (y # ys)"

text \<open>
  \<open>s.splitlines()\<close>: the line boundaries are LF, CR, CR LF, VT, FF, FS, GS, RS,
  NEL, LS and PS; a boundary at the very end opens no further line. \<open>after_cr\<close>
  remembers that the boundary just taken was a CR, so that the LF of a CR LF pair
  is dropped with it.
\<close>

definition linebreak :: "nat \<Rightarrow> bool" where
  "linebreak c \<longleftrightarrow>
     (10 \<le> c \<and> c \<le> 13) \<or> (28 \<le> c \<and> c \<le> 30) \<or> c = 133 \<or> c = 8232 \<or> c = 8233"

fun splitlines_from :: "bool \<Rightarrow> pystr \<Rightarrow> pystr \<Rightarrow> pystr list" where
  "splitlines_from after_cr cur [] = (if cur = [] then [] else [cur])"
| "splitlines_from after_cr cur (c # cs) =
     (if after_cr \<and> c = 10 then splitlines_from False cur cs
      else if linebreak c then cur # splitlines_from (c = 13) [] cs
      else splitlines_from False (cur @ [c]) cs)"

definition splitlines :: "pystr \<Rightarrow> pystr list" where
  "splitlines s = splitlines_from False [] s"

section \<open>Python dictionaries\<close>

text \<open>
  A \<open>dict\<close> keeps its keys in insertion order, and an assignment to a key that
  is present keeps the key's place: an association list with
  \<^const>\<open>AList.update\<close> as \<open>d[k] = v\<close>. \<open>dict_of\<close> is the comprehension
  \<open>{k: v for k, v in items}\<close>.
\<close>

type_synonym ('k, 'v) dict = "('k \<times> 'v) list"

definition dict_of :: "('k \<times> 'v) list \<Rightarrow> ('k, 'v) dict" where
  "dict_of items = fold (\<lambda>(k, v) d. AList.update k v d) items []"

section \<open>The placeholder codec: \<open>services/gpt_translate.py\<close>\<close>

text \<open>
  \<open>flags\<close> is the table loaded from \<open>flags.json\<close> (language code to flag
  glyph); the file is not part of the sources, so the table is a parameter.
  \<^verbatim>\<open>
  def patch_flag(text):
      for code, flag in flags.items():
          if f" {flag}" in text:
              return text.replace(f" {flag}", " {flag}")
          if text.endswith(flag):
              return text.replace(flag, "{flag}")
      return text
  \<close>
\<close>

fun patch_flag :: "(pystr, pystr) dict \<Rightarrow> pystr \<Rightarrow> pystr" where
  "patch_flag [] text = text"
| "patch_flag ((code, flag) # flags) text =
     (if contains (32 # flag) text then py_replace (32 # flag) (lit '' {flag}'') text
      else if suffix flag text then py_replace flag (lit ''{flag}'') text
      else patch_flag flags text)"

text \<open>
  The flags of Russia and of the United Kingdom, two regional indicators each,
  and a table holding the first.
\<close>

definition flag_ru :: pystr where
  "flag_ru = [127479, 127482]"


definition flags_ru_only :: "(pystr, pystr) dict" where
  "flags_ru_only = [(lit ''ru'', flag_ru)]"

section \<open>The data model: \<open>models.py\<close>\<close>

text \<open>
  \<^verbatim>\<open>
  class Translation(Base):
      __tablename__ = "translations"
      id = Column(Integer, primary_key=True)
      key = Column(String(100), index=True)
      lang = Column(String(3))
      text = Column(Text)

  class Language(Base):
      __tablename__ = "languages"
      code = Column(String(10), primary_key=True)
      name = Column(String(50), nullable=False)
      name_ru = Column(String(50), nullable=False)
      emoji = Column(String(10), default="")
      available = Column(Boolean, default=True)
  \<close>
  The columns keep their names behind the prefixes \<open>tr_\<close> and \<open>lg_\<close>. The
  table of translations declares one constraint, the primary key \<open>id\<close>; the
  index on \<open>key\<close> is a plain one, and no unique constraint covers the pair
  \<open>(key, lang)\<close>. A table is the list of its rows in the order of insertion.
  Values are taken to fit the column widths, and SQL comparison is equality of
  the strings.
\<close>

record Translation =
  tr_id :: nat
  tr_key :: pystr
  tr_lang :: pystr
  tr_text :: pystr

record Language =
  lg_code :: pystr
  lg_name :: pystr
  lg_name_ru :: pystr
  lg_emoji :: "pystr option"
  lg_available :: bool

record database =
  translations_table :: "Translation list"
  languages_table :: "Language list"

text \<open>The identifier an auto-increment primary key gives the next row.\<close>

definition next_id :: "Translation list \<Rightarrow> nat" where
  "next_id tbl = Suc (fold max (map tr_id tbl) 0)"

text \<open>
  \<^verbatim>\<open>insert(Translation).values(key=k, lang=l, text=t).prefix_with("IGNORE")\<close>:
  \<open>INSERT IGNORE\<close> drops the new row when it repeats a value of a primary key or
  of a unique index, and adds it otherwise. The only such key of the table is
  \<open>id\<close>.
\<close>

definition insert_ignore :: "Translation list \<Rightarrow> pystr \<Rightarrow> pystr \<Rightarrow> pystr \<Rightarrow> Translation list" where
  "insert_ignore tbl k l t =
     (let row = \<lparr>tr_id = next_id tbl, tr_key = k, tr_lang = l, tr_text = t\<rparr>
      in if tr_id row \<in> set (map tr_id tbl) then tbl else tbl @ [row])"

section \<open>Exceptions, the environment and responses\<close>

text \<open>
  \<open>HTTPException(status_code, detail)\<close>; the detail is a message, or \<open>str(e)\<close>
  of the exception that was caught. \<open>CapabilityError\<close> stands for whatever the
  chat completion call, or reading its first choice, raises.
\<close>

datatype py_exception =
    HTTPException nat detail
  | MultipleResultsFound
  | CapabilityError pystr
and detail =
    Detail pystr
  | Str py_exception

text \<open>
  What the process holds globally: the table of \<open>flags.json\<close>, the chat
  completion of the OpenAI client (system message, user message, and the content
  of the first choice or an exception), and the interpreter's \<open>str.upper\<close>.
\<close>

record env =
  flags_json :: "(pystr, pystr) dict"
  chat_completion :: "pystr \<Rightarrow> pystr \<Rightarrow> py_exception + pystr"
  str_upper :: "pystr \<Rightarrow> pystr"

section \<open>The backfill call: \<open>translate_with_gpt\<close>\<close>

text \<open>
  \<^verbatim>\<open>
  prompt_lines = []
  for key, text in ru_translations.items():
      safe_text = patch_flag(text)
      prompt_lines.append(f"{key}: {safe_text}")
  formatted = "\n".join(prompt_lines)
  \<close>
\<close>

definition prompt_lines :: "(pystr, pystr) dict \<Rightarrow> (pystr, pystr) dict \<Rightarrow> pystr list" where
  "prompt_lines flags ru_translations =
     map (\<lambda>(key, text). key @ lit '': '' @ patch_flag flags text) ru_translations"

definition formatted :: "(pystr, pystr) dict \<Rightarrow> (pystr, pystr) dict \<Rightarrow> pystr" where
  "formatted flags ru_translations = join [10] (prompt_lines flags ru_translations)"

text \<open>
  The system message, a Russian text around \<open>{lang_name} {emoji}\<close>, as code
  points: it asks for a translation of what stands right of each colon, with line
  breaks, the \<open>{flag}\<close> token and the placeholders kept, one \<open>key: text\<close> a line.
\<close>

definition system_msg :: "pystr \<Rightarrow> pystr \<Rightarrow> pystr" where
  "system_msg lang_name emoji =
     [1058, 1099, 32, 1087, 1088, 1086, 1092, 1077, 1089, 1089, 1080, 1086, 1085, 1072,
      1083, 1100, 1085, 1099, 1081, 32, 1087, 1077, 1088, 1077, 1074, 1086, 1076, 1095,
      1080, 1082, 32, 1080, 1085, 1090, 1077, 1088, 1092, 1077, 1081, 1089, 1086, 1074,
      46, 10, 1055, 1077, 1088, 1077, 1074, 1086, 1076, 1080, 32, 1089, 1090, 1088,
      1086, 1082, 1080, 32, 1089, 1087, 1088, 1072, 1074, 1072, 32, 1086, 1090, 32,
      1076, 1074, 1086, 1077, 1090, 1086, 1095, 1080, 1103, 32, 1085, 1072, 32]
     @ lang_name @ [32] @ emoji @
     [46, 10, 1057, 1086, 1093, 1088, 1072, 1085, 1103, 1081, 32, 1087, 1077, 1088,
      1077, 1085, 1086, 1089, 1099, 32, 1089, 1090, 1088, 1086, 1082, 32, 40, 92, 110,
      32, 1080, 32, 92, 110, 92, 110, 41, 44, 32, 1101, 1084, 1086, 1076, 1079, 1080,
      32, 123, 102, 108, 97, 103, 125, 44, 32, 1072, 32, 1090, 1072, 1082, 1078, 1077,
      32, 1087, 1083, 1077, 1081, 1089, 1093, 1086, 1083, 1076, 1077, 1088, 1099, 32,
      1074, 1088, 1086, 1076, 1077, 32, 123, 116, 101, 120, 116, 125, 32, 1080, 32, 123,
      109, 111, 100, 101, 114, 97, 116, 111, 114, 125, 46, 10, 1060, 1086, 1088, 1084,
      1072, 1090, 32, 1086, 1090, 1074, 1077, 1090, 1072, 58, 32, 107, 101, 121, 58, 32,
      116, 114, 97, 110, 115, 108, 97, 116, 101, 100, 32, 116, 101, 120, 116]"

text \<open>
  \<^verbatim>\<open>
  raw = response.choices[0].message.content.strip()
  result = {}
  for line in raw.splitlines():
      if ":" in line:
          k, v = line.split(":", 1)
          final_text = v.strip().replace(
              "{flag}", f"{flags.get(target_lang, target_lang.upper())}")
          result[k.strip()] = final_text
  return result
  \<close>
  A line without a colon is passed over; nothing in the parse raises.
\<close>

definition target_flag :: "env \<Rightarrow> pystr \<Rightarrow> pystr" where
  "target_flag e target_lang =
     (case map_of (flags_json e) target_lang of
        Some flag \<Rightarrow> flag
      | None \<Rightarrow> str_upper e target_lang)"

definition parse_line :: "env \<Rightarrow> pystr \<Rightarrow> pystr \<Rightarrow> (pystr, pystr) dict \<Rightarrow> (pystr, pystr) dict" where
  "parse_line e target_lang line result =
     (if 58 \<in> set line
      then let k = takeWhile (\<lambda>c. c \<noteq> 58) line;
               v = tl (dropWhile (\<lambda>c. c \<noteq> 58) line);
               final_text = py_replace (lit ''{flag}'') (target_flag e target_lang) (strip v)
           in AList.update (strip k) final_text result
      else result)"

definition parse_reply :: "env \<Rightarrow> pystr \<Rightarrow> pystr \<Rightarrow> (pystr, pystr) dict" where
  "parse_reply e target_lang content =
     fold (parse_line e target_lang) (splitlines (strip content)) []"

definition translate_with_gpt ::
  "env \<Rightarrow> (pystr, pystr) dict \<Rightarrow> pystr \<Rightarrow> pystr \<Rightarrow> pystr \<Rightarrow> py_exception + (pystr, pystr) dict" where
  "translate_with_gpt e ru_translations target_lang lang_name emoji =
     (case chat_completion e (system_msg lang_name emoji)
             (formatted (flags_json e) ru_translations) of
        Inl exn \<Rightarrow> Inl exn
      | Inr content \<Rightarrow> Inr (parse_reply e target_lang content))"

section \<open>Committing a result mapping\<close>

text \<open>
  Both committing handlers run the same loop over the result mapping:
  \<^verbatim>\<open>
  for key, text in translations.items():
      if not text.strip():
          continue
      stmt = insert(Translation).values(key=key, lang=lang, text=text).prefix_with("IGNORE")
      await session.execute(stmt)
  \<close>
\<close>

fun insert_translations :: "pystr \<Rightarrow> (pystr, pystr) dict \<Rightarrow> Translation list \<Rightarrow> Translation list" where
  "insert_translations lang [] tbl = tbl"
| "insert_translations lang ((key, text) # rest) tbl =
     (if strip text = [] then insert_translations lang rest tbl
      else insert_translations lang rest (insert_ignore tbl key lang text))"

text \<open>
  The JSON bodies of the three handlers that answer in JSON, and the context
  handed to the template of the translations page.
\<close>

record page =
  p_translations :: "(pystr, (pystr, pystr) dict) dict"
  p_langs :: "Language list"
  p_missing_langs :: "Language list"
  p_selected_lang :: "Language option"
  p_temp_translations :: "(pystr, pystr) dict"
  p_total_keys :: int
  p_filled_count :: "(pystr, int) dict"
  p_missing_count :: "(pystr, int) dict"

datatype response =
    Saved nat
  | Added nat
  | Translations "(pystr, pystr) dict"
  | Page page

text \<open>
  \<open>routes/save_translations.py\<close>, \<open>POST /translations/save\<close>:
  \<^verbatim>\<open>
  try:
      async with SessionLocal() as session:
          for key, text in data.translations.items(): ...
          await session.commit()
          return JSONResponse({"status": "ok", "saved": len(data.translations)})
  except Exception as e:
      raise HTTPException(status_code=500, detail=str(e))
  \<close>
  A handler takes the database and gives the database it leaves and either the
  exception it raises or its response. Nothing modelled raises here.
\<close>

record BulkSaveRequest =
  bs_lang :: pystr
  bs_translations :: "(pystr, pystr) dict"

definition save_translations_handler ::
  "database \<Rightarrow> BulkSaveRequest \<Rightarrow> database \<times> (py_exception + response)" where
  "save_translations_handler db data =
     (db\<lparr>translations_table :=
           insert_translations (bs_lang data) (bs_translations data) (translations_table db)\<rparr>,
      Inr (Saved (length (bs_translations data))))"

text \<open>\<open>scalar_one_or_none()\<close> of a result: no row, the one row, or an exception.\<close>

fun scalar_one_or_none :: "'a list \<Rightarrow> py_exception + 'a option" where
  "scalar_one_or_none [] = Inr None"
| "scalar_one_or_none [x] = Inr (Some x)"
| "scalar_one_or_none (x # y # ys) = Inl MultipleResultsFound"

text \<open>\<open>lang.emoji or ""\<close>.\<close>

definition emoji_or_empty :: "Language \<Rightarrow> pystr" where
  "emoji_or_empty l = (case lg_emoji l of None \<Rightarrow> [] | Some e \<Rightarrow> e)"

text \<open>
  \<open>ru_dict = {row.key: row.text for row in ru_rows}\<close> over the rows selected
  with \<open>Translation.lang == "ru"\<close>.
\<close>

definition ru_dict :: "Translation list \<Rightarrow> (pystr, pystr) dict" where
  "ru_dict tbl = dict_of (map (\<lambda>row. (tr_key row, tr_text row))
                              (filter (\<lambda>row. tr_lang row = lit ''ru'') tbl))"

text \<open>The detail of the 404 of \<open>/translate_with_gpt\<close>, "language not found" in Russian.\<close>

definition lang_not_found :: pystr where
  "lang_not_found = [1071, 1079, 1099, 1082, 32, 1085, 1077, 32, 1085, 1072, 1081, 1076, 1077, 1085]"

text \<open>
  \<open>routes/gpt_translations.py\<close>, \<open>POST /translate_with_gpt\<close>. The body of the
  \<open>try\<close>:
  \<^verbatim>\<open>
  lang_result = await session.execute(select(Language).where(Language.code == data.lang))
  lang = lang_result.scalar_one_or_none()
  if not lang:
      raise HTTPException(status_code=404, detail=...)
  result = await session.execute(select(Translation).where(Translation.lang == "ru"))
  ru_rows = result.scalars().all()
  ru_dict = {row.key: row.text for row in ru_rows}
  translated_dict = await translate_with_gpt(ru_translations=ru_dict,
      target_lang=lang.code, lang_name=lang.name_ru, emoji=lang.emoji or "")
  for key, text in translated_dict.items(): ...
  await session.commit()
  return JSONResponse({"status": "ok", "added": len(translated_dict)})
  \<close>
\<close>

definition gpt_translation_try ::
  "env \<Rightarrow> database \<Rightarrow> pystr \<Rightarrow> py_exception + (database \<times> response)" where
  "gpt_translation_try e db data_lang =
     (case scalar_one_or_none (filter (\<lambda>l. lg_code l = data_lang) (languages_table db)) of
        Inl exn \<Rightarrow> Inl exn
      | Inr None \<Rightarrow> Inl (HTTPException 404 (Detail lang_not_found))
      | Inr (Some lang) \<Rightarrow>
          (case translate_with_gpt e (ru_dict (translations_table db))
                  (lg_code lang) (lg_name_ru lang) (emoji_or_empty lang) of
             Inl exn \<Rightarrow> Inl exn
           | Inr translated_dict \<Rightarrow>
               Inr (db\<lparr>translations_table :=
                         insert_translations (lg_code lang) translated_dict (translations_table db)\<rparr>,
                    Added (length translated_dict))))"

text \<open>
  Around it:
  \<^verbatim>\<open>
  except Exception as e:
      logger.exception(...)
      raise HTTPException(status_code=500, detail=str(e))
  \<close>
  \<open>HTTPException\<close> is an \<open>Exception\<close>, so the handler catches its own 404 as
  well. An exception leaves the session before \<open>session.commit()\<close>, and the
  database as it was.
\<close>

definition gpt_translation_handler ::
  "env \<Rightarrow> database \<Rightarrow> pystr \<Rightarrow> database \<times> (py_exception + response)" where
  "gpt_translation_handler e db data_lang =
     (case gpt_translation_try e db data_lang of
        Inl exn \<Rightarrow> (db, Inl (HTTPException 500 (Str exn)))
      | Inr (db', r) \<Rightarrow> (db', Inr r))"

section \<open>Coverage and preview: \<open>show_translations\<close> in \<open>main.py\<close>\<close>

text \<open>
  \<open>d[k]\<close> on a \<open>defaultdict\<close>: the value, or the empty default.
  \<^verbatim>\<open>
  translations = defaultdict(dict)
  used_lang_codes = set()
  for row in translations_raw:
      translations[row.key][row.lang] = row.text
      used_lang_codes.add(row.lang)
  \<close>
\<close>

definition dd_get :: "('k, ('a \<times> 'b) list) dict \<Rightarrow> 'k \<Rightarrow> ('a \<times> 'b) list" where
  "dd_get d k = (case map_of d k of None \<Rightarrow> [] | Some v \<Rightarrow> v)"

definition set_text ::
  "pystr \<Rightarrow> pystr \<Rightarrow> pystr \<Rightarrow> (pystr, (pystr, pystr) dict) dict \<Rightarrow> (pystr, (pystr, pystr) dict) dict" where
  "set_text k l t translations = AList.update k (AList.update l t (dd_get translations k)) translations"

definition collect :: "Translation list \<Rightarrow> (pystr, (pystr, pystr) dict) dict" where
  "collect translations_raw =
     fold (\<lambda>row. set_text (tr_key row) (tr_lang row) (tr_text row)) translations_raw []"

definition used_lang_codes :: "Translation list \<Rightarrow> pystr set" where
  "used_lang_codes translations_raw = set (map tr_lang translations_raw)"

text \<open>
  \<^verbatim>\<open>
  filtered_keys = [k for k in translations if k != "welcome"]
  total_keys = len(filtered_keys)
  \<close>
\<close>

definition filtered_keys :: "(pystr, (pystr, pystr) dict) dict \<Rightarrow> pystr list" where
  "filtered_keys translations = filter (\<lambda>k. k \<noteq> lit ''welcome'') (map fst translations)"

definition total_keys :: "(pystr, (pystr, pystr) dict) dict \<Rightarrow> int" where
  "total_keys translations = int (length (filtered_keys translations))"

text \<open>
  \<^verbatim>\<open>
  selected_code = request.query_params.get("add")
  selected_lang = next((l for l in all_langs if l.code == selected_code), None)
  if selected_lang:
      langs = [l for l in all_langs if l.code == "ru"]
      if selected_lang.code != "ru":
          langs.append(selected_lang)
  else:
      langs = [l for l in all_langs if l.code in used_lang_codes]
  langs = sorted(langs, key=lambda l: (l.code != "ru", l.name_ru))
  \<close>
  \<open>sorted\<close> is stable, as \<^const>\<open>sort_key\<close> is; tuples compare
  lexicographically, \<open>False\<close> before \<open>True\<close>, strings by code points.
\<close>

definition selected_lang_of :: "Language list \<Rightarrow> pystr option \<Rightarrow> Language option" where
  "selected_lang_of all_langs selected_code =
     (case selected_code of
        None \<Rightarrow> None
      | Some c \<Rightarrow> find (\<lambda>l. lg_code l = c) all_langs)"

definition select_langs :: "Language list \<Rightarrow> pystr set \<Rightarrow> Language option \<Rightarrow> Language list" where
  "select_langs all_langs used selected_lang =
     sort_key (\<lambda>l. (lg_code l \<noteq> lit ''ru'', lg_name_ru l))
       (case selected_lang of
          Some sl \<Rightarrow> filter (\<lambda>l. lg_code l = lit ''ru'') all_langs
                     @ (if lg_code sl \<noteq> lit ''ru'' then [sl] else [])
        | None \<Rightarrow> filter (\<lambda>l. lg_code l \<in> used) all_langs)"

text \<open>
  \<^verbatim>\<open>
  filled_count = {
      l.code: sum(1 for k in filtered_keys if l.code in translations[k])
      for l in langs
  }
  missing_count = {
      code: total_keys - filled
      for code, filled in filled_count.items()
  }
  \<close>
\<close>

definition filled_count :: "(pystr, (pystr, pystr) dict) dict \<Rightarrow> Language list \<Rightarrow> (pystr, int) dict" where
  "filled_count translations langs =
     dict_of (map (\<lambda>l. (lg_code l,
                         int (length (filter (\<lambda>k. lg_code l \<in> set (map fst (dd_get translations k)))
                                             (filtered_keys translations)))))
                  langs)"

definition missing_count :: "(pystr, (pystr, pystr) dict) dict \<Rightarrow> Language list \<Rightarrow> (pystr, int) dict" where
  "missing_count translations langs =
     dict_of (map (\<lambda>(code, filled). (code, total_keys translations - filled))
                  (filled_count translations langs))"

text \<open>
  The preview, run when a language was selected with \<open>?add=\<close>:
  \<^verbatim>\<open>
  ru_texts = {k: translations[k]["ru"] for k in filtered_keys if "ru" in translations[k]}
  gpt_translations = await translate_with_gpt(ru_translations=ru_texts,
      target_lang=selected_lang.code, lang_name=selected_lang.name_ru,
      emoji=selected_lang.emoji or "")
  for k, v in gpt_translations.items():
      translations[k][selected_lang.code] = v
  temp_translations = gpt_translations
  \<close>
  The merge writes into the local dictionary of the request.
\<close>

definition ru_texts :: "(pystr, (pystr, pystr) dict) dict \<Rightarrow> (pystr, pystr) dict" where
  "ru_texts translations =
     dict_of (List.map_filter
                (\<lambda>k. map_option (\<lambda>t. (k, t)) (map_of (dd_get translations k) (lit ''ru'')))
                (filtered_keys translations))"

definition merge_preview ::
  "pystr \<Rightarrow> (pystr, pystr) dict \<Rightarrow> (pystr, (pystr, pystr) dict) dict \<Rightarrow> (pystr, (pystr, pystr) dict) dict" where
  "merge_preview code gpt_translations translations =
     fold (\<lambda>(k, v). set_text k code v) gpt_translations translations"

definition internal_server_error :: py_exception where
  "internal_server_error = HTTPException 500 (Detail (lit ''Internal Server Error''))"

text \<open>
  \<open>GET /translations\<close>. The session only selects; every exception of the body
  becomes the 500 above. \<open>add\<close> is the query parameter.
\<close>

definition show_translations ::
  "env \<Rightarrow> database \<Rightarrow> pystr option \<Rightarrow> database \<times> (py_exception + response)" where
  "show_translations e db add =
     (let translations_raw = translations_table db;
          all_langs = languages_table db;
          translations = collect translations_raw;
          used = used_lang_codes translations_raw;
          selected_lang = selected_lang_of all_langs add;
          langs = select_langs all_langs used selected_lang;
          context = \<lparr>p_translations = translations,
                     p_langs = langs,
                     p_missing_langs = filter (\<lambda>l. lg_code l \<notin> used) all_langs,
                     p_selected_lang = selected_lang,
                     p_temp_translations = [],
                     p_total_keys = total_keys translations,
                     p_filled_count = filled_count translations langs,
                     p_missing_count = missing_count translations langs\<rparr>
      in case selected_lang of
           None \<Rightarrow> (db, Inr (Page context))
         | Some sl \<Rightarrow>
             (case translate_with_gpt e (ru_texts translations)
                     (lg_code sl) (lg_name_ru sl) (emoji_or_empty sl) of
                Inl exn \<Rightarrow> (db, Inl internal_server_error)
              | Inr gpt_translations \<Rightarrow>
                  (db, Inr (Page (context
                     \<lparr>p_translations := merge_preview (lg_code sl) gpt_translations translations,
                      p_temp_translations := gpt_translations\<rparr>)))))"

section \<open>Missing keys: \<open>translate_missing\<close> in \<open>main.py\<close>\<close>

text \<open>
  \<^verbatim>\<open>
  existing = defaultdict(set)
  for r in rows:
      existing[r.key].add(r.lang)
  missing_keys = [
      key for key, langs in existing.items()
      if "ru" in langs and lang not in langs
  ]
  ru_texts = {}
  for key in missing_keys:
      for r in rows:
          if r.key == key and r.lang == "ru":
              ru_texts[key] = r.text
              break
  \<close>
\<close>

definition add_lang :: "Translation \<Rightarrow> (pystr, pystr set) dict \<Rightarrow> (pystr, pystr set) dict" where
  "add_lang r existing =
     AList.update (tr_key r)
       (insert (tr_lang r) (case map_of existing (tr_key r) of None \<Rightarrow> {} | Some langs \<Rightarrow> langs))
       existing"

definition existing_langs :: "Translation list \<Rightarrow> (pystr, pystr set) dict" where
  "existing_langs rows = fold add_lang rows []"

definition missing_keys :: "Translation list \<Rightarrow> pystr \<Rightarrow> pystr list" where
  "missing_keys rows lang =
     map fst (filter (\<lambda>(key, langs). lit ''ru'' \<in> langs \<and> lang \<notin> langs) (existing_langs rows))"

definition missing_ru_texts :: "Translation list \<Rightarrow> pystr list \<Rightarrow> (pystr, pystr) dict" where
  "missing_ru_texts rows keys =
     dict_of (List.map_filter
                (\<lambda>key. map_option (\<lambda>r. (key, tr_text r))
                          (find (\<lambda>r. tr_key r = key \<and> tr_lang r = lit ''ru'') rows))
                keys)"

text \<open>
  \<open>GET /translations/translate_missing?lang=\<close>. \<open>session.get(Language, lang)\<close>
  reads by the primary key; the handler has no \<open>try\<close>, so its 404
  (\<open>Language '...' not found\<close>) and an exception of the backfill call leave it
  as they are.
\<close>

definition translate_missing ::
  "env \<Rightarrow> database \<Rightarrow> pystr \<Rightarrow> database \<times> (py_exception + response)" where
  "translate_missing e db lang =
     (let rows = translations_table db
      in case find (\<lambda>l. lg_code l = lang) (languages_table db) of
           None \<Rightarrow> (db, Inl (HTTPException 404
                               (Detail (lit ''Language '' @ [39] @ lang @ [39] @ lit '' not found''))))
         | Some lang_row \<Rightarrow>
             (case translate_with_gpt e (missing_ru_texts rows (missing_keys rows lang))
                     lang (lg_name_ru lang_row) (emoji_or_empty lang_row) of
                Inl exn \<Rightarrow> (db, Inl exn)
              | Inr new_translations \<Rightarrow> (db, Inr (Translations new_translations))))"

section \<open>A small catalog\<close>

text \<open>
  Russian is the source language; English has the key \<open>greeting\<close> only. The
  environment \<open>env_reply content\<close> answers every request with \<open>content\<close>, and
  \<open>env_failing\<close> raises on every request.
\<close>

definition lang_ru :: Language where
  "lang_ru = \<lparr>lg_code = lit ''ru'', lg_name = lit ''Russian'', lg_name_ru = lit ''Russkij'',
              lg_emoji = Some flag_ru, lg_available = True\<rparr>"

definition lang_en :: Language where
  "lang_en = \<lparr>lg_code = lit ''en'', lg_name = lit ''English'', lg_name_ru = lit ''Anglijskij'',
              lg_emoji = None, lg_available = True\<rparr>"

definition rows_example :: "Translation list" where
  "rows_example =
     [\<lparr>tr_id = 1, tr_key = lit ''welcome'', tr_lang = lit ''ru'', tr_text = lit ''Zdravstvujte''\<rparr>,
      \<lparr>tr_id = 2, tr_key = lit ''greeting'', tr_lang = lit ''ru'', tr_text = lit ''Privet''\<rparr>,
      \<lparr>tr_id = 3, tr_key = lit ''bye'', tr_lang = lit ''ru'', tr_text = lit ''Poka''\<rparr>,
      \<lparr>tr_id = 4, tr_key = lit ''greeting'', tr_lang = lit ''en'', tr_text = lit ''Hello''\<rparr>]"

definition db_example :: database where
  "db_example = \<lparr>translations_table = rows_example, languages_table = [lang_ru, lang_en]\<rparr>"

text \<open>A catalog in which the key \<open>promo\<close> exists in English only.\<close>

definition rows_orphan :: "Translation list" where
  "rows_orphan =
     [\<lparr>tr_id = 1, tr_key = lit ''greeting'', tr_lang = lit ''ru'', tr_text = lit ''Privet''\<rparr>,
      \<lparr>tr_id = 2, tr_key = lit ''promo'', tr_lang = lit ''en'', tr_text = lit ''Sale''\<rparr>]"

definition db_orphan :: database where
  "db_orphan = \<lparr>translations_table = rows_orphan, languages_table = [lang_ru, lang_en]\<rparr>"

definition ascii_upper :: "pystr \<Rightarrow> pystr" where
  "ascii_upper s = map (\<lambda>c. if 97 \<le> c \<and> c \<le> 122 then c - 32 else c) s"

definition env_reply :: "pystr \<Rightarrow> env" where
  "env_reply content =
     \<lparr>flags_json = flags_ru_only, chat_completion = (\<lambda>system user. Inr content),
      str_upper = ascii_upper\<rparr>"

text \<open>
  Two replies: one with a translation for \<open>greeting\<close> and an empty one for
  \<open>bye\<close>, and one that is no list of \<open>key: text\<close> lines at all.
\<close>

definition reply_two_lines :: pystr where
  "reply_two_lines = lit ''greeting: Hi'' @ [10] @ lit ''bye:''"

definition reply_refusal :: pystr where
  "reply_refusal = lit ''I cannot translate this.''"


section \<open>Replacement reaches every occurrence\<close>














section \<open>Dictionaries and inserts\<close>

lemma fold_update_keys:
  "fst ` set (fold (\<lambda>(k, v) d. AList.update k v d) items d) = fst ` set d \<union> fst ` set items"
proof (induction items arbitrary: d)
  case Nil
  show ?case by simp
next
  case (Cons x items)
  obtain k v where x: "x = (k, v)" by (cases x)
  have "fst ` set (fold (\<lambda>(k, v) d. AList.update k v d) items (AList.update k v d)) =
        fst ` set (AList.update k v d) \<union> fst ` set items"
    by (rule Cons.IH)
  also have "\<dots> = fst ` set d \<union> fst ` set (x # items)"
    unfolding dom_update x by auto
  finally show ?case by (simp add: x)
qed

lemma fold_update_distinct:
  "distinct (map fst d) \<Longrightarrow> distinct (map fst (fold (\<lambda>(k, v) d. AList.update k v d) items d))"
  by (induction items arbitrary: d) (auto simp: distinct_update)

lemma fold_update_map_of:
  "map_of (fold (\<lambda>(k, v) d. AList.update k v d) items d) = map_of d ++ map_of (rev items)"
  by (induction items arbitrary: d) (auto simp: update_conv' map_add_upd_left fun_eq_iff map_add_def split: option.splits)

lemma dict_of_keys: "fst ` set (dict_of items) = fst ` set items"
  by (simp add: dict_of_def fold_update_keys)

lemma dict_of_distinct: "distinct (map fst (dict_of items))"
  by (simp add: dict_of_def fold_update_distinct)

lemma dict_of_map_of: "map_of (dict_of items) = map_of (rev items)"
  by (simp add: dict_of_def fold_update_map_of)

lemma map_of_rev_distinct: "distinct (map fst xs) \<Longrightarrow> map_of (rev xs) = map_of xs"
  by (rule map_of_inject_set[THEN iffD2]) (simp_all add: rev_map[symmetric])

text \<open>
  The auto-increment identifier is new, so the \<open>IGNORE\<close> of the insert never
  finds a key to collide with: every insert adds its row at the end of the table.
\<close>

lemma max_fold_ge: "fold max xs (a::nat) \<ge> a"
proof (induction xs arbitrary: a)
  case Nil
  show ?case by simp
next
  case (Cons y ys)
  show ?case using Cons.IH[of "max y a"] by simp
qed

lemma max_fold_upper: "x \<in> set xs \<Longrightarrow> x \<le> fold max xs (a::nat)"
proof (induction xs arbitrary: a)
  case Nil
  then show ?case by simp
next
  case (Cons y ys)
  show ?case
  proof (cases "x = y")
    case True
    have "max y a \<le> fold max ys (max y a)" by (rule max_fold_ge)
    then show ?thesis using True by simp
  next
    case False
    with Cons show ?thesis by simp
  qed
qed

lemma next_id_fresh: "next_id tbl \<notin> set (map tr_id tbl)"
proof
  assume "next_id tbl \<in> set (map tr_id tbl)"
  then have "next_id tbl \<le> fold max (map tr_id tbl) 0" by (rule max_fold_upper)
  then show False by (simp add: next_id_def)
qed

lemma insert_ignore_appends:
  "insert_ignore tbl k l t = tbl @ [\<lparr>tr_id = next_id tbl, tr_key = k, tr_lang = l, tr_text = t\<rparr>]"
  using next_id_fresh[of tbl] by (simp add: insert_ignore_def)

lemma insert_translations_prefix: "prefix tbl (insert_translations lang d tbl)"
proof (induction d arbitrary: tbl)
  case Nil
  show ?case by simp
next
  case (Cons x d)
  obtain k t where x: "x = (k, t)" by (cases x)
  have "prefix tbl (insert_ignore tbl k lang t)" by (simp add: insert_ignore_appends)
  then have "prefix tbl (insert_translations lang d (insert_ignore tbl k lang t))"
    using Cons.IH by (rule prefix_order.trans)
  then show ?case using Cons.IH[of tbl] by (simp add: x)
qed

section \<open>The backfill handler\<close>

lemma ru_dict_keys:
  "fst ` set (ru_dict tbl) = {tr_key r |r. r \<in> set tbl \<and> tr_lang r = lit ''ru''}"
  by (auto simp: ru_dict_def dict_of_keys image_iff)

lemma ru_dict_length:
  "length (ru_dict tbl) = card {tr_key r |r. r \<in> set tbl \<and> tr_lang r = lit ''ru''}"
proof -
  have "length (ru_dict tbl) = length (map fst (ru_dict tbl))" by simp
  also have "\<dots> = card (set (map fst (ru_dict tbl)))"
    by (rule distinct_card[symmetric]) (simp add: ru_dict_def dict_of_distinct)
  also have "set (map fst (ru_dict tbl)) = {tr_key r |r. r \<in> set tbl \<and> tr_lang r = lit ''ru''}"
    using ru_dict_keys[of tbl] by simp
  finally show ?thesis .
qed

lemma gpt_translation_handler_found:
  assumes "filter (\<lambda>l. lg_code l = data_lang) (languages_table db) = [lang]"
  shows "gpt_translation_handler e db data_lang =
     (case translate_with_gpt e (ru_dict (translations_table db))
             (lg_code lang) (lg_name_ru lang) (emoji_or_empty lang) of
        Inl exn \<Rightarrow> (db, Inl (HTTPException 500 (Str exn)))
      | Inr d \<Rightarrow>
          (db\<lparr>translations_table := insert_translations (lg_code lang) d (translations_table db)\<rparr>,
           Inr (Added (length d))))"
  by (simp add: gpt_translation_handler_def gpt_translation_try_def assms split: sum.splits)

lemma gpt_translation_handler_ok_tied:
  assumes "gpt_translation_handler e db data_lang = (db', Inr r)"
  shows "\<exists>lang d. filter (\<lambda>l. lg_code l = data_lang) (languages_table db) = [lang] \<and>
          translate_with_gpt e (ru_dict (translations_table db))
             (lg_code lang) (lg_name_ru lang) (emoji_or_empty lang) = Inr d \<and>
          db' = db\<lparr>translations_table :=
                     insert_translations (lg_code lang) d (translations_table db)\<rparr> \<and>
          r = Added (length d)"
proof (cases "filter (\<lambda>l. lg_code l = data_lang) (languages_table db)")
  case Nil
  with assms show ?thesis
    by (simp add: gpt_translation_handler_def gpt_translation_try_def)
next
  case (Cons lang rest)
  show ?thesis
  proof (cases rest)
    case Nil
    with Cons have found: "filter (\<lambda>l. lg_code l = data_lang) (languages_table db) = [lang]"
      by simp
    from assms show ?thesis
      unfolding gpt_translation_handler_found[OF found] using found
      by (auto split: sum.splits)
  next
    case (Cons l2 rest2)
    with \<open>filter (\<lambda>l. lg_code l = data_lang) (languages_table db) = lang # rest\<close> assms
    show ?thesis
      by (simp add: gpt_translation_handler_def gpt_translation_try_def)
  qed
qed

lemma example_languages_en:
  "filter (\<lambda>l. lg_code l = lit ''en'') (languages_table db_example) = [lang_en]"
  by (simp add: db_example_def lang_ru_def lang_en_def lit_def)

lemma example_ru_dict:
  "ru_dict rows_example =
     [(lit ''welcome'', lit ''Zdravstvujte''), (lit ''greeting'', lit ''Privet''),
      (lit ''bye'', lit ''Poka'')]"
  by (simp add: ru_dict_def rows_example_def dict_of_def lit_def)

lemma example_reply_blank:
  "translate_with_gpt (env_reply reply_two_lines) ru_translations
     (lit ''en'') lang_name emoji = Inr [(lit ''greeting'', lit ''Hi''), (lit ''bye'', [])]"
  by (simp add: translate_with_gpt_def env_reply_def parse_reply_def parse_line_def
      splitlines_def strip_def isspace_def linebreak_def lit_def py_replace_def reply_two_lines_def)

lemma example_backfill_blank:
  "gpt_translation_handler (env_reply reply_two_lines) db_example (lit ''en'') =
   (db_example\<lparr>translations_table := rows_example @
       [\<lparr>tr_id = 5, tr_key = lit ''greeting'', tr_lang = lit ''en'', tr_text = lit ''Hi''\<rparr>]\<rparr>,
    Inr (Added 2))"
proof -
  have t: "translate_with_gpt (env_reply reply_two_lines)
        (ru_dict (translations_table db_example))
        (lg_code lang_en) (lg_name_ru lang_en) (emoji_or_empty lang_en) =
        Inr [(lit ''greeting'', lit ''Hi''), (lit ''bye'', [])]"
    by (simp add: lang_en_def example_reply_blank)
  show ?thesis
    unfolding gpt_translation_handler_found[OF example_languages_en] t
    by (simp add: db_example_def rows_example_def insert_ignore_def lang_en_def
      next_id_def strip_def isspace_def lit_def)
qed

lemma example_prompt:
  "join [10] (prompt_lines flags_ru_only (ru_dict rows_example)) =
     lit ''welcome: Zdravstvujte'' @ [10] @ lit ''greeting: Privet'' @ [10] @ lit ''bye: Poka''"
  unfolding example_ru_dict
  by (simp add: prompt_lines_def flags_ru_only_def flag_ru_def lit_def suffix_to_prefix)

section \<open>Commit and the rows of the table\<close>

text \<open>
  Claim C1 at a concrete catalog. English has \<open>greeting = Hello\<close> in row 4;
  committing \<open>{greeting: Hi}\<close> for English adds row 5 for the same pair of key
  and language, since no unique index stands in the way of the insert.
\<close>

theorem save_adds_row_for_existing_pair:
  "save_translations_handler db_example
     \<lparr>bs_lang = lit ''en'', bs_translations = [(lit ''greeting'', lit ''Hi'')]\<rparr> =
   (db_example\<lparr>translations_table := rows_example @
       [\<lparr>tr_id = 5, tr_key = lit ''greeting'', tr_lang = lit ''en'', tr_text = lit ''Hi''\<rparr>]\<rparr>,
    Inr (Saved 1))"
  by (simp add: save_translations_handler_def db_example_def rows_example_def insert_ignore_def
      next_id_def strip_def isspace_def lit_def)

text \<open>
  Claim C2, as the code has it. The count a committing handler returns is the
  size of the result mapping it commits: \<open>/translations/save\<close> runs the insert
  loop over \<open>data.translations\<close> and answers \<open>saved =
  len(data.translations)\<close>; \<open>/translate_with_gpt\<close> answers \<open>ok\<close> exactly
  when the language is in the directory and the backfill call returned a
  mapping \<open>translated_dict\<close>, and then it runs the insert loop over that
  mapping and answers \<open>added = len(translated_dict)\<close>. Entries with blank
  text are part of that size.
\<close>

theorem returned_count_is_size_of_mapping:
  "save_translations_handler db data =
     (db\<lparr>translations_table :=
           insert_translations (bs_lang data) (bs_translations data) (translations_table db)\<rparr>,
      Inr (Saved (length (bs_translations data)))) \<and>
   (gpt_translation_handler e db2 data_lang = (db', Inr r) \<longrightarrow>
      (\<exists>lang d. filter (\<lambda>l. lg_code l = data_lang) (languages_table db2) = [lang] \<and>
          translate_with_gpt e (ru_dict (translations_table db2))
             (lg_code lang) (lg_name_ru lang) (emoji_or_empty lang) = Inr d \<and>
          db' = db2\<lparr>translations_table :=
                      insert_translations (lg_code lang) d (translations_table db2)\<rparr> \<and>
          r = Added (length d))) \<and>
   (filter (\<lambda>l. lg_code l = data_lang) (languages_table db2) = [lang0] \<and>
    translate_with_gpt e (ru_dict (translations_table db2))
       (lg_code lang0) (lg_name_ru lang0) (emoji_or_empty lang0) = Inr translated_dict \<longrightarrow>
    gpt_translation_handler e db2 data_lang =
      (db2\<lparr>translations_table :=
             insert_translations (lg_code lang0) translated_dict (translations_table db2)\<rparr>,
       Inr (Added (length translated_dict))))"
proof (intro conjI impI)
  show "save_translations_handler db data =
     (db\<lparr>translations_table :=
           insert_translations (bs_lang data) (bs_translations data) (translations_table db)\<rparr>,
      Inr (Saved (length (bs_translations data))))"
    by (simp add: save_translations_handler_def)
next
  assume "gpt_translation_handler e db2 data_lang = (db', Inr r)"
  then show "\<exists>lang d. filter (\<lambda>l. lg_code l = data_lang) (languages_table db2) = [lang] \<and>
          translate_with_gpt e (ru_dict (translations_table db2))
             (lg_code lang) (lg_name_ru lang) (emoji_or_empty lang) = Inr d \<and>
          db' = db2\<lparr>translations_table :=
                      insert_translations (lg_code lang) d (translations_table db2)\<rparr> \<and>
          r = Added (length d)"
    by (rule gpt_translation_handler_ok_tied)
next
  assume a: "filter (\<lambda>l. lg_code l = data_lang) (languages_table db2) = [lang0] \<and>
    translate_with_gpt e (ru_dict (translations_table db2))
       (lg_code lang0) (lg_name_ru lang0) (emoji_or_empty lang0) = Inr translated_dict"
  then have found: "filter (\<lambda>l. lg_code l = data_lang) (languages_table db2) = [lang0]" by blast
  show "gpt_translation_handler e db2 data_lang =
      (db2\<lparr>translations_table :=
             insert_translations (lg_code lang0) translated_dict (translations_table db2)\<rparr>,
       Inr (Added (length translated_dict)))"
    unfolding gpt_translation_handler_found[OF found] using a by simp
qed

lemma example_translate_two_lines:
  "translate_with_gpt (env_reply reply_two_lines) (ru_dict (translations_table db_example))
        (lg_code lang_en) (lg_name_ru lang_en) (emoji_or_empty lang_en) =
        Inr [(lit ''greeting'', lit ''Hi''), (lit ''bye'', [])]"
  by (simp add: lang_en_def example_reply_blank)

text \<open>
  The commit of \<open>{greeting: Hi, bye: ""}\<close> for English adds one row and answers
  2, and so does the backfill whose reply has an empty text for \<open>bye\<close>.
\<close>

theorem returned_count_is_size_of_mapping_witness:
  "save_translations_handler db_example
          \<lparr>bs_lang = lit ''en'', bs_translations = [(lit ''greeting'', lit ''Hi''), (lit ''bye'', [])]\<rparr> =
     (db_example\<lparr>translations_table := rows_example @
        [\<lparr>tr_id = 5, tr_key = lit ''greeting'', tr_lang = lit ''en'', tr_text = lit ''Hi''\<rparr>]\<rparr>,
      Inr (Saved 2)) \<and>
   filter (\<lambda>l. lg_code l = lit ''en'') (languages_table db_example) = [lang_en] \<and>
   translate_with_gpt (env_reply reply_two_lines) (ru_dict (translations_table db_example))
        (lg_code lang_en) (lg_name_ru lang_en) (emoji_or_empty lang_en) =
        Inr [(lit ''greeting'', lit ''Hi''), (lit ''bye'', [])] \<and>
   gpt_translation_handler (env_reply reply_two_lines) db_example (lit ''en'') =
     (db_example\<lparr>translations_table := rows_example @
        [\<lparr>tr_id = 5, tr_key = lit ''greeting'', tr_lang = lit ''en'', tr_text = lit ''Hi''\<rparr>]\<rparr>,
      Inr (Added 2))"
proof -
  note th = returned_count_is_size_of_mapping
    [where db=db_example
       and data="\<lparr>bs_lang = lit ''en'', bs_translations = [(lit ''greeting'', lit ''Hi''), (lit ''bye'', [])]\<rparr>"
       and e="env_reply reply_two_lines" and ?db2.0=db_example and data_lang="lit ''en''"
       and ?lang0.0=lang_en and translated_dict="[(lit ''greeting'', lit ''Hi''), (lit ''bye'', [])]"
       and db'="db_example\<lparr>translations_table := rows_example @
          [\<lparr>tr_id = 5, tr_key = lit ''greeting'', tr_lang = lit ''en'', tr_text = lit ''Hi''\<rparr>]\<rparr>"
       and r="Added 2"]
  have ins: "insert_translations (lit ''en'') [(lit ''greeting'', lit ''Hi''), (lit ''bye'', [])]
       (translations_table db_example) = rows_example @
        [\<lparr>tr_id = 5, tr_key = lit ''greeting'', tr_lang = lit ''en'', tr_text = lit ''Hi''\<rparr>]"
    by (simp add: db_example_def rows_example_def insert_ignore_def next_id_def strip_def
        isspace_def lit_def)
  have code: "lg_code lang_en = lit ''en''" by (simp add: lang_en_def)
  have save: "save_translations_handler db_example
          \<lparr>bs_lang = lit ''en'', bs_translations = [(lit ''greeting'', lit ''Hi''), (lit ''bye'', [])]\<rparr> =
     (db_example\<lparr>translations_table := rows_example @
        [\<lparr>tr_id = 5, tr_key = lit ''greeting'', tr_lang = lit ''en'', tr_text = lit ''Hi''\<rparr>]\<rparr>,
      Inr (Saved 2))"
  proof -
    have sel: "bs_lang \<lparr>bs_lang = lit ''en'', bs_translations = [(lit ''greeting'', lit ''Hi''), (lit ''bye'', [])]\<rparr> = lit ''en''"
      "bs_translations \<lparr>bs_lang = lit ''en'', bs_translations = [(lit ''greeting'', lit ''Hi''), (lit ''bye'', [])]\<rparr> =
         [(lit ''greeting'', lit ''Hi''), (lit ''bye'', [])]"
      by simp_all
    have len: "length [(lit ''greeting'', lit ''Hi''), (lit ''bye'', [] :: pystr)] = 2" by simp
    show ?thesis using th[THEN conjunct1] unfolding sel ins len .
  qed
  have "gpt_translation_handler (env_reply reply_two_lines) db_example (lit ''en'') =
      (db_example\<lparr>translations_table :=
             insert_translations (lg_code lang_en) [(lit ''greeting'', lit ''Hi''), (lit ''bye'', [])]
               (translations_table db_example)\<rparr>,
       Inr (Added (length [(lit ''greeting'', lit ''Hi''), (lit ''bye'', [] :: pystr)])))"
    using th[THEN conjunct2, THEN conjunct2] example_languages_en example_translate_two_lines
    by blast
  then have handler: "gpt_translation_handler (env_reply reply_two_lines) db_example (lit ''en'') =
     (db_example\<lparr>translations_table := rows_example @
        [\<lparr>tr_id = 5, tr_key = lit ''greeting'', tr_lang = lit ''en'', tr_text = lit ''Hi''\<rparr>]\<rparr>,
      Inr (Added 2))"
  proof -
    have len: "length [(lit ''greeting'', lit ''Hi''), (lit ''bye'', [] :: pystr)] = 2" by simp
    assume h: "gpt_translation_handler (env_reply reply_two_lines) db_example (lit ''en'') =
      (db_example\<lparr>translations_table :=
             insert_translations (lg_code lang_en) [(lit ''greeting'', lit ''Hi''), (lit ''bye'', [])]
               (translations_table db_example)\<rparr>,
       Inr (Added (length [(lit ''greeting'', lit ''Hi''), (lit ''bye'', [] :: pystr)])))"
    show ?thesis using h unfolding code ins len .
  qed
  from save example_languages_en example_translate_two_lines handler
  show ?thesis by blast
qed

text \<open>
  Claim C2 as stated fails: the commit of \<open>{bye: "  "}\<close> skips its only entry,
  adds no row, and answers 1.
\<close>

theorem returned_count_counts_skipped_entry_counterexample:
  "save_translations_handler db_example
     \<lparr>bs_lang = lit ''en'', bs_translations = [(lit ''bye'', lit ''  '')]\<rparr> =
   (db_example, Inr (Saved 1)) \<and>
   length (translations_table (fst (save_translations_handler db_example
     \<lparr>bs_lang = lit ''en'', bs_translations = [(lit ''bye'', lit ''  '')]\<rparr>))) =
   length (translations_table db_example)"
  by (simp add: save_translations_handler_def db_example_def strip_def isspace_def lit_def)

text \<open>
  Claim C3, as the code has it. A second commit of the same mapping returns the
  same count as the first, the size of the mapping, and every row the table held
  after the first commit is still there, unchanged and in place.
\<close>

theorem second_commit_returns_size_again:
  "snd (save_translations_handler (fst (save_translations_handler db data)) data) =
     Inr (Saved (length (bs_translations data))) \<and>
   snd (save_translations_handler (fst (save_translations_handler db data)) data) =
     snd (save_translations_handler db data) \<and>
   prefix (translations_table (fst (save_translations_handler db data)))
     (translations_table (fst (save_translations_handler (fst (save_translations_handler db data)) data)))"
  by (simp add: save_translations_handler_def insert_translations_prefix)

text \<open>
  Claim C3 as stated fails: the second commit of \<open>{bye: Bye}\<close> for English
  answers 1, not 0, and the table is not the one the first commit left.
\<close>

theorem second_commit_not_zero_counterexample:
  "snd (save_translations_handler
          (fst (save_translations_handler db_example
                  \<lparr>bs_lang = lit ''en'', bs_translations = [(lit ''bye'', lit ''Bye'')]\<rparr>))
          \<lparr>bs_lang = lit ''en'', bs_translations = [(lit ''bye'', lit ''Bye'')]\<rparr>) = Inr (Saved 1) \<and>
   translations_table (fst (save_translations_handler
          (fst (save_translations_handler db_example
                  \<lparr>bs_lang = lit ''en'', bs_translations = [(lit ''bye'', lit ''Bye'')]\<rparr>))
          \<lparr>bs_lang = lit ''en'', bs_translations = [(lit ''bye'', lit ''Bye'')]\<rparr>)) =
   translations_table (fst (save_translations_handler db_example
                  \<lparr>bs_lang = lit ''en'', bs_translations = [(lit ''bye'', lit ''Bye'')]\<rparr>)) @
     [\<lparr>tr_id = 6, tr_key = lit ''bye'', tr_lang = lit ''en'', tr_text = lit ''Bye''\<rparr>]"
  by (simp add: save_translations_handler_def db_example_def rows_example_def insert_ignore_def
      next_id_def strip_def isspace_def lit_def)

section \<open>Failures of the backfill handler\<close>








text \<open>
  An unknown language in the handler without a \<open>try\<close>: the 404 leaves it as
  it is.
\<close>

lemma translate_missing_unknown:
  "find (\<lambda>l. lg_code l = lang) (languages_table db) = None \<Longrightarrow>
   translate_missing e db lang =
     (db, Inl (HTTPException 404 (Detail (lit ''Language '' @ [39] @ lang @ [39] @ lit '' not found''))))"
  by (simp add: translate_missing_def)

text \<open>
  Claim C8 at a concrete request. The code \<open>xx\<close> is not in the directory. The
  backfill handler raises its 404 inside its own \<open>try\<close>, whose
  \<open>except Exception\<close> turns it into a 500; the missing-key handler answers the
  same request with the 404. The catalog is unchanged in both.
\<close>

theorem backfill_unknown_language_gives_500:
  "gpt_translation_handler (env_reply reply_two_lines) db_example (lit ''xx'') =
     (db_example, Inl (HTTPException 500 (Str (HTTPException 404 (Detail lang_not_found))))) \<and>
   translate_missing (env_reply reply_two_lines) db_example (lit ''xx'') =
     (db_example, Inl (HTTPException 404
        (Detail (lit ''Language '' @ [39] @ lit ''xx'' @ [39] @ lit '' not found''))))"
  by (simp add: gpt_translation_handler_def gpt_translation_try_def translate_missing_def
      db_example_def lang_ru_def lang_en_def lit_def)

section \<open>The batch of the backfill handler\<close>

text \<open>
  For a language of the directory, \<open>/translate_with_gpt\<close> sends one request
  whose user message has a line for every key of a Russian row of the catalog:
  no key is left out for being \<open>welcome\<close> or for having a row in the target
  language. The rows the reply gives are put after the rows the table holds.
\<close>

lemma backfill_batch_is_every_source_entry:
  assumes "filter (\<lambda>l. lg_code l = data_lang) (languages_table db) = [lang]"
  shows "gpt_translation_handler e db data_lang =
           (case chat_completion e (system_msg (lg_name_ru lang) (emoji_or_empty lang))
                   (join [10] (prompt_lines (flags_json e) (ru_dict (translations_table db)))) of
              Inl exn \<Rightarrow> (db, Inl (HTTPException 500 (Str exn)))
            | Inr content \<Rightarrow>
                (db\<lparr>translations_table :=
                      insert_translations (lg_code lang) (parse_reply e (lg_code lang) content)
                        (translations_table db)\<rparr>,
                 Inr (Added (length (parse_reply e (lg_code lang) content))))) \<and>
         fst ` set (ru_dict (translations_table db)) =
           {tr_key r |r. r \<in> set (translations_table db) \<and> tr_lang r = lit ''ru''} \<and>
         length (prompt_lines (flags_json e) (ru_dict (translations_table db))) =
           card {tr_key r |r. r \<in> set (translations_table db) \<and> tr_lang r = lit ''ru''} \<and>
         prefix (translations_table db) (translations_table (fst (gpt_translation_handler e db data_lang)))"
proof -
  have handler: "gpt_translation_handler e db data_lang =
           (case chat_completion e (system_msg (lg_name_ru lang) (emoji_or_empty lang))
                   (join [10] (prompt_lines (flags_json e) (ru_dict (translations_table db)))) of
              Inl exn \<Rightarrow> (db, Inl (HTTPException 500 (Str exn)))
            | Inr content \<Rightarrow>
                (db\<lparr>translations_table :=
                      insert_translations (lg_code lang) (parse_reply e (lg_code lang) content)
                        (translations_table db)\<rparr>,
                 Inr (Added (length (parse_reply e (lg_code lang) content)))))"
    by (simp add: gpt_translation_handler_found[OF assms] translate_with_gpt_def formatted_def
        split: sum.splits)
  have "prefix (translations_table db) (translations_table (fst (gpt_translation_handler e db data_lang)))"
    unfolding handler by (simp add: insert_translations_prefix split: sum.splits)
  with handler show ?thesis
    by (simp only: ru_dict_keys prompt_lines_def length_map ru_dict_length simp_thms)
qed

text \<open>
  On the small catalog the request for English lists \<open>welcome\<close> and
  \<open>greeting\<close>, which English has, next to \<open>bye\<close>.
\<close>

lemma backfill_batch_example:
  "filter (\<lambda>l. lg_code l = lit ''en'') (languages_table db_example) = [lang_en] \<and>
   fst ` set (ru_dict (translations_table db_example)) =
     {lit ''welcome'', lit ''greeting'', lit ''bye''} \<and>
   length (prompt_lines (flags_json (env_reply reply_two_lines)) (ru_dict (translations_table db_example))) = 3 \<and>
   join [10] (prompt_lines flags_ru_only (ru_dict rows_example)) =
     lit ''welcome: Zdravstvujte'' @ [10] @ lit ''greeting: Privet'' @ [10] @ lit ''bye: Poka'' \<and>
   prefix (translations_table db_example)
     (translations_table (fst (gpt_translation_handler (env_reply reply_two_lines) db_example (lit ''en''))))"
proof -
  have tbl: "translations_table db_example = rows_example" by (simp add: db_example_def)
  have keys: "fst ` set (ru_dict rows_example) = {lit ''welcome'', lit ''greeting'', lit ''bye''}"
    unfolding example_ru_dict by simp
  have len: "length (prompt_lines (flags_json (env_reply reply_two_lines)) (ru_dict rows_example)) = 3"
    unfolding example_ru_dict by (simp add: prompt_lines_def)
  from backfill_batch_is_every_source_entry[OF example_languages_en, of "env_reply reply_two_lines"]
  have "prefix (translations_table db_example)
     (translations_table (fst (gpt_translation_handler (env_reply reply_two_lines) db_example (lit ''en''))))"
    by (elim conjE)
  then show ?thesis
    using example_languages_en keys len example_prompt by (simp add: tbl)
qed

section \<open>Coverage\<close>

lemma dd_get_set_text:
  "dd_get (set_text k' l t T) k = (if k = k' then AList.update l t (dd_get T k') else dd_get T k)"
  by (simp add: dd_get_def set_text_def update_conv')

lemma set_text_keys: "fst ` set (set_text k l t T) = insert k (fst ` set T)"
  by (simp add: set_text_def dom_update)

lemma set_text_distinct: "distinct (map fst T) \<Longrightarrow> distinct (map fst (set_text k l t T))"
  by (simp add: set_text_def distinct_update)

lemma collect_from_keys:
  "fst ` set (fold (\<lambda>row. set_text (tr_key row) (tr_lang row) (tr_text row)) rows T) =
   fst ` set T \<union> tr_key ` set rows"
  by (induction rows arbitrary: T) (simp_all add: set_text_keys)

lemma collect_from_distinct:
  "distinct (map fst T) \<Longrightarrow>
   distinct (map fst (fold (\<lambda>row. set_text (tr_key row) (tr_lang row) (tr_text row)) rows T))"
  by (induction rows arbitrary: T) (simp_all add: set_text_distinct)

lemma collect_from_langs:
  "fst ` set (dd_get (fold (\<lambda>row. set_text (tr_key row) (tr_lang row) (tr_text row)) rows T) k) =
   fst ` set (dd_get T k) \<union> {tr_lang r |r. r \<in> set rows \<and> tr_key r = k}"
proof (induction rows arbitrary: T)
  case Nil
  show ?case by simp
next
  case (Cons row rows)
  show ?case
    unfolding fold_simps Cons.IH
    by (auto simp: dd_get_set_text dom_update)
qed

lemma collect_keys: "fst ` set (collect rows) = tr_key ` set rows"
  by (simp add: collect_def collect_from_keys)

lemma collect_distinct: "distinct (map fst (collect rows))"
  by (simp add: collect_def collect_from_distinct)

lemma collect_langs:
  "fst ` set (dd_get (collect rows) k) = {tr_lang r |r. r \<in> set rows \<and> tr_key r = k}"
proof -
  have "dd_get ([] :: (pystr, (pystr, pystr) dict) dict) k = []" by (simp add: dd_get_def)
  then show ?thesis unfolding collect_def collect_from_langs by simp
qed

lemma filtered_keys_set:
  "set (filtered_keys (collect rows)) = {k. k \<noteq> lit ''welcome'' \<and> (\<exists>r\<in>set rows. tr_key r = k)}"
  using collect_keys[of rows] by (auto simp: filtered_keys_def)

lemma total_keys_card:
  "total_keys (collect rows) = int (card {k. k \<noteq> lit ''welcome'' \<and> (\<exists>r\<in>set rows. tr_key r = k)})"
proof -
  have "distinct (filtered_keys (collect rows))"
    unfolding filtered_keys_def by (rule distinct_filter) (rule collect_distinct)
  then have "length (filtered_keys (collect rows)) = card (set (filtered_keys (collect rows)))"
    by (simp add: distinct_card)
  then show ?thesis by (simp add: total_keys_def filtered_keys_set)
qed

lemma filled_count_lookup:
  assumes "map_of (filled_count T langs) c = Some filled"
  shows "filled = int (length (filter (\<lambda>k. c \<in> set (map fst (dd_get T k))) (filtered_keys T)))"
proof -
  from assms have "(c, filled) \<in> set (rev (map (\<lambda>l. (lg_code l,
       int (length (filter (\<lambda>k. lg_code l \<in> set (map fst (dd_get T k))) (filtered_keys T))))) langs))"
    unfolding filled_count_def dict_of_map_of by (rule map_of_SomeD)
  then show ?thesis by auto
qed

lemma missing_count_lookup:
  "map_of (missing_count T langs) c =
   map_option (\<lambda>filled. total_keys T - filled) (map_of (filled_count T langs) c)"
proof -
  let ?F = "filled_count T langs"
  let ?g = "\<lambda>(code, filled). (code, total_keys T - filled)"
  have d: "distinct (map fst (map ?g ?F))"
    using dict_of_distinct[of "map (\<lambda>l. (lg_code l,
       int (length (filter (\<lambda>k. lg_code l \<in> set (map fst (dd_get T k))) (filtered_keys T))))) langs"]
    by (simp add: filled_count_def split_beta comp_def)
  have "map_of (missing_count T langs) = map_of (rev (map ?g ?F))"
    by (simp add: missing_count_def dict_of_map_of)
  also have "\<dots> = map_of (map ?g ?F)" using d by (rule map_of_rev_distinct)
  also have "\<dots> = map_option (\<lambda>filled. total_keys T - filled) \<circ> map_of ?F"
    by (rule map_of_map)
  finally show ?thesis by simp
qed

lemma filter_all_iff: "length (filter P xs) = length xs \<longleftrightarrow> (\<forall>x\<in>set xs. P x)"
  by (metis filter_True filter_id_conv length_filter_less less_irrefl)

lemma show_translations_counts:
  "case snd (show_translations e db add) of
     Inr (Page pg) \<Rightarrow>
       p_total_keys pg = total_keys (collect (translations_table db)) \<and>
       p_filled_count pg = filled_count (collect (translations_table db)) (p_langs pg) \<and>
       p_missing_count pg = missing_count (collect (translations_table db)) (p_langs pg)
   | _ \<Rightarrow> True"
  by (simp add: show_translations_def Let_def split: option.splits sum.splits)

lemma filled_all_iff:
  "int (length (filter (\<lambda>k. c \<in> set (map fst (dd_get (collect rows) k))) (filtered_keys (collect rows)))) =
     total_keys (collect rows) \<longleftrightarrow>
   (\<forall>r\<in>set rows. tr_key r \<noteq> lit ''welcome'' \<longrightarrow>
      (\<exists>r'\<in>set rows. tr_key r' = tr_key r \<and> tr_lang r' = c))"
proof -
  have "(\<forall>k\<in>set (filtered_keys (collect rows)). c \<in> set (map fst (dd_get (collect rows) k))) \<longleftrightarrow>
        (\<forall>r\<in>set rows. tr_key r \<noteq> lit ''welcome'' \<longrightarrow>
           (\<exists>r'\<in>set rows. tr_key r' = tr_key r \<and> tr_lang r' = c))"
    unfolding filtered_keys_set using collect_langs[of rows] by (simp add: set_eq_iff) blast
  then show ?thesis by (simp add: total_keys_def filter_all_iff)
qed

text \<open>
  Claim C5, as the code has it. For every language shown, the filled and the
  missing count add up to the total, and the filled count lies between 0 and the
  total. The total counts the distinct keys of the whole catalog, whatever the
  language of their rows, except \<open>welcome\<close>. A language, the source language
  included, has missing count 0 exactly when every such key has a row in it.
  These are the counts the translations page is given.
\<close>

theorem coverage_counts_every_key:
  assumes "map_of (filled_count (collect rows) langs) c = Some filled"
  shows "(\<exists>missing. map_of (missing_count (collect rows) langs) c = Some missing \<and>
            filled + missing = total_keys (collect rows)) \<and>
         0 \<le> filled \<and> filled \<le> total_keys (collect rows) \<and>
         total_keys (collect rows) =
           int (card {k. k \<noteq> lit ''welcome'' \<and> (\<exists>r\<in>set rows. tr_key r = k)}) \<and>
         (map_of (missing_count (collect rows) langs) c = Some 0 \<longleftrightarrow>
            (\<forall>r\<in>set rows. tr_key r \<noteq> lit ''welcome'' \<longrightarrow>
               (\<exists>r'\<in>set rows. tr_key r' = tr_key r \<and> tr_lang r' = c))) \<and>
         (case snd (show_translations e db add) of
            Inr (Page pg) \<Rightarrow>
              p_total_keys pg = total_keys (collect (translations_table db)) \<and>
              p_filled_count pg = filled_count (collect (translations_table db)) (p_langs pg) \<and>
              p_missing_count pg = missing_count (collect (translations_table db)) (p_langs pg)
          | _ \<Rightarrow> True)"
proof -
  let ?T = "collect rows"
  have filled: "filled = int (length (filter (\<lambda>k. c \<in> set (map fst (dd_get ?T k))) (filtered_keys ?T)))"
    using assms by (rule filled_count_lookup)
  have missing: "map_of (missing_count ?T langs) c = Some (total_keys ?T - filled)"
    by (simp add: missing_count_lookup assms)
  have bounds: "0 \<le> filled \<and> filled \<le> total_keys ?T"
    unfolding filled total_keys_def by simp
  have zero: "map_of (missing_count ?T langs) c = Some 0 \<longleftrightarrow>
       (\<forall>r\<in>set rows. tr_key r \<noteq> lit ''welcome'' \<longrightarrow>
          (\<exists>r'\<in>set rows. tr_key r' = tr_key r \<and> tr_lang r' = c))"
    unfolding missing using filled_all_iff[of c rows] filled by auto
  show ?thesis
    using missing bounds zero total_keys_card[of rows] show_translations_counts[where e=e and db=db and add=add]
    by simp
qed

lemma orphan_collect:
  "collect rows_orphan =
     [(lit ''greeting'', [(lit ''ru'', lit ''Privet'')]), (lit ''promo'', [(lit ''en'', lit ''Sale'')])]"
  by (simp add: collect_def rows_orphan_def set_text_def dd_get_def lit_def)

lemma orphan_filled:
  "filled_count (collect rows_orphan) [lang_ru, lang_en] = [(lit ''ru'', 1), (lit ''en'', 1)]"
  unfolding orphan_collect
  by (simp add: filled_count_def filtered_keys_def dict_of_def dd_get_def lang_ru_def lang_en_def lit_def)

lemma orphan_missing:
  "missing_count (collect rows_orphan) [lang_ru, lang_en] = [(lit ''ru'', 1), (lit ''en'', 1)]"
  unfolding missing_count_def orphan_filled unfolding orphan_collect
  by (simp add: total_keys_def filtered_keys_def dict_of_def lit_def)

text \<open>
  The catalog with \<open>promo\<close> in English only: Russian has 1 filled and 1
  missing of 2 keys.
\<close>

theorem coverage_counts_every_key_witness:
  "map_of (filled_count (collect rows_orphan) [lang_ru, lang_en]) (lit ''ru'') = Some 1 \<and>
   map_of (missing_count (collect rows_orphan) [lang_ru, lang_en]) (lit ''ru'') = Some 1 \<and>
   1 + 1 = total_keys (collect rows_orphan) \<and>
   total_keys (collect rows_orphan) =
     int (card {k. k \<noteq> lit ''welcome'' \<and> (\<exists>r\<in>set rows_orphan. tr_key r = k)})"
proof -
  have f: "map_of (filled_count (collect rows_orphan) [lang_ru, lang_en]) (lit ''ru'') = Some 1"
    unfolding orphan_filled by simp
  have m: "map_of (missing_count (collect rows_orphan) [lang_ru, lang_en]) (lit ''ru'') = Some 1"
    unfolding orphan_missing by simp
  from coverage_counts_every_key[OF f, where e="env_reply reply_refusal" and db=db_orphan and add=None] f m
  show ?thesis by simp
qed

text \<open>
  Claim C5 as stated fails: the page of that catalog shows a missing count of 1
  for Russian, and a total of 2 where Russian has one key.
\<close>

theorem source_language_missing_counterexample:
  "(case snd (show_translations (env_reply reply_refusal) db_orphan None) of
      Inr (Page pg) \<Rightarrow>
        map_of (p_missing_count pg) (lit ''ru'') = Some 1 \<and> p_total_keys pg = 2
    | _ \<Rightarrow> False) \<and>
   length (filter (\<lambda>r. tr_lang r = lit ''ru'') rows_orphan) = 1"
proof -
  have langs: "select_langs [lang_ru, lang_en] (used_lang_codes rows_orphan) None = [lang_ru, lang_en]"
    by (simp add: select_langs_def used_lang_codes_def rows_orphan_def lang_ru_def lang_en_def lit_def)
  have total: "total_keys (collect rows_orphan) = 2"
    unfolding orphan_collect by (simp add: total_keys_def filtered_keys_def lit_def)
  have "length (filter (\<lambda>r. tr_lang r = lit ''ru'') rows_orphan) = 1"
    by (simp add: rows_orphan_def lit_def)
  then show ?thesis
    by (simp add: show_translations_def Let_def db_orphan_def selected_lang_of_def langs
        orphan_missing total)
qed

section \<open>Missing keys\<close>

lemma add_lang_lookup:
  "map_of (add_lang r E) k =
     (if k = tr_key r
      then Some (insert (tr_lang r) (case map_of E k of None \<Rightarrow> {} | Some langs \<Rightarrow> langs))
      else map_of E k)"
  by (simp add: add_lang_def update_conv')

lemma add_lang_distinct: "distinct (map fst E) \<Longrightarrow> distinct (map fst (add_lang r E))"
  by (simp add: add_lang_def distinct_update)

lemma existing_from_distinct:
  "distinct (map fst E) \<Longrightarrow> distinct (map fst (fold add_lang rows E))"
  by (induction rows arbitrary: E) (simp_all add: add_lang_distinct)

lemma existing_from_lookup:
  "map_of (fold add_lang rows E) k =
     (if k \<in> tr_key ` set rows
      then Some ((case map_of E k of None \<Rightarrow> {} | Some langs \<Rightarrow> langs) \<union>
                 {tr_lang r |r. r \<in> set rows \<and> tr_key r = k})
      else map_of E k)"
proof (induction rows arbitrary: E)
  case Nil
  show ?case by simp
next
  case (Cons row rows)
  show ?case
  proof -
    define S where "S = {tr_lang r |r. r \<in> set rows \<and> tr_key r = k}"
    define S' where "S' = {tr_lang r |r. r \<in> set (row # rows) \<and> tr_key r = k}"
    define base where "base = (case map_of E k of None \<Rightarrow> {} | Some langs \<Rightarrow> langs)"
    have S': "S' = (if k = tr_key row then insert (tr_lang row) S else S)"
      unfolding S_def S'_def by auto
    have empty: "k \<notin> tr_key ` set rows \<Longrightarrow> S = {}"
      unfolding S_def by auto
    have ih: "map_of (fold add_lang rows (add_lang row E)) k =
       (if k \<in> tr_key ` set rows
        then Some ((case map_of (add_lang row E) k of None \<Rightarrow> {} | Some langs \<Rightarrow> langs) \<union> S)
        else map_of (add_lang row E) k)"
      unfolding S_def by (rule Cons.IH)
    have step: "map_of (add_lang row E) k =
       (if k = tr_key row then Some (insert (tr_lang row) base) else map_of E k)"
      unfolding base_def by (rule add_lang_lookup)
    have "map_of (fold add_lang (row # rows) E) k =
       (if k \<in> tr_key ` set (row # rows) then Some (base \<union> S') else map_of E k)"
    proof (cases "k = tr_key row")
      case True
      show ?thesis
      proof (cases "k \<in> tr_key ` set rows")
        case in_rows: True
        show ?thesis unfolding fold_simps ih step S' using True in_rows by simp
      next
        case False
        show ?thesis unfolding fold_simps ih step S' using True False empty by simp
      qed
    next
      case False
      show ?thesis
      proof (cases "k \<in> tr_key ` set rows")
        case True
        show ?thesis unfolding fold_simps ih step S' using False True by (simp add: base_def)
      next
        case nk: False
        show ?thesis unfolding fold_simps ih step S' using False nk by simp
      qed
    qed
    then show ?thesis unfolding S'_def base_def .
  qed
qed

lemma existing_langs_distinct: "distinct (map fst (existing_langs rows))"
  by (simp add: existing_langs_def existing_from_distinct)

lemma existing_langs_lookup:
  "map_of (existing_langs rows) k =
     (if k \<in> tr_key ` set rows then Some {tr_lang r |r. r \<in> set rows \<and> tr_key r = k} else None)"
  by (simp add: existing_langs_def existing_from_lookup)

lemma existing_langs_member:
  "(k, langs) \<in> set (existing_langs rows) \<longleftrightarrow>
   k \<in> tr_key ` set rows \<and> langs = {tr_lang r |r. r \<in> set rows \<and> tr_key r = k}"
proof -
  have "(k, langs) \<in> set (existing_langs rows) \<longleftrightarrow> map_of (existing_langs rows) k = Some langs"
    using existing_langs_distinct[of rows] by simp
  then show ?thesis by (auto simp: existing_langs_lookup)
qed

lemma distinct_map_fst_filter: "distinct (map fst xs) \<Longrightarrow> distinct (map fst (filter P xs))"
  by (induction xs) auto

text \<open>
  Claim C6, as the code has it. The missing keys are exactly the keys with a
  Russian row and no row in the target language, each once; \<open>welcome\<close> is one
  of them when it qualifies.
\<close>

theorem missing_keys_source_without_target:
  "set (missing_keys rows lang) =
     {k. (\<exists>r\<in>set rows. tr_key r = k \<and> tr_lang r = lit ''ru'') \<and>
         \<not> (\<exists>r\<in>set rows. tr_key r = k \<and> tr_lang r = lang)} \<and>
   distinct (missing_keys rows lang)"
proof -
  have "set (missing_keys rows lang) =
     {k. \<exists>langs. (k, langs) \<in> set (existing_langs rows) \<and> lit ''ru'' \<in> langs \<and> lang \<notin> langs}"
    by (auto simp: missing_keys_def image_iff)
  also have "\<dots> = {k. (\<exists>r\<in>set rows. tr_key r = k \<and> tr_lang r = lit ''ru'') \<and>
         \<not> (\<exists>r\<in>set rows. tr_key r = k \<and> tr_lang r = lang)}"
    unfolding existing_langs_member by (auto; metis)
  finally have s: "set (missing_keys rows lang) =
     {k. (\<exists>r\<in>set rows. tr_key r = k \<and> tr_lang r = lit ''ru'') \<and>
         \<not> (\<exists>r\<in>set rows. tr_key r = k \<and> tr_lang r = lang)}" .
  have "distinct (missing_keys rows lang)"
    unfolding missing_keys_def by (rule distinct_map_fst_filter) (rule existing_langs_distinct)
  with s show ?thesis by simp
qed

lemma example_missing_keys:
  "missing_keys rows_example (lit ''en'') = [lit ''welcome'', lit ''bye'']"
  by (simp add: missing_keys_def existing_langs_def add_lang_def rows_example_def lit_def)

text \<open>
  With Russian rows for \<open>welcome\<close>, \<open>greeting\<close> and \<open>bye\<close> and an
  English row for \<open>greeting\<close>, the missing keys for English are \<open>welcome\<close>
  and \<open>bye\<close>.
\<close>

theorem missing_keys_source_without_target_witness:
  "missing_keys rows_example (lit ''en'') = [lit ''welcome'', lit ''bye''] \<and>
   {lit ''welcome'', lit ''bye''} =
     {k. (\<exists>r\<in>set rows_example. tr_key r = k \<and> tr_lang r = lit ''ru'') \<and>
         \<not> (\<exists>r\<in>set rows_example. tr_key r = k \<and> tr_lang r = lit ''en'')}"
  using missing_keys_source_without_target[of rows_example "lit ''en''"]
  unfolding example_missing_keys by simp

text \<open>
  Claim C6 as stated fails on its own example: the result is not \<open>{bye}\<close>.
\<close>

theorem missing_keys_keep_welcome_counterexample:
  "missing_keys rows_example (lit ''en'') = [lit ''welcome'', lit ''bye''] \<and>
   set (missing_keys rows_example (lit ''en'')) \<noteq> {lit ''bye''}"
  unfolding example_missing_keys by (simp add: lit_def)

section \<open>The preview\<close>

lemma show_translations_db: "fst (show_translations e db add) = db"
  by (simp add: show_translations_def Let_def split: option.splits sum.splits)

lemma translate_missing_db: "fst (translate_missing e db lang) = db"
  by (simp add: translate_missing_def Let_def split: option.splits sum.splits)

text \<open>
  Claim C9. The translations page, with or without a preview, and the
  missing-key preview leave the database as it was, so a coverage computation
  after a preview gives what it gave before. The filled counts of the preview
  page itself are those of the stored catalog: the preview is merged into the
  dictionary of the request after they were counted.
\<close>

theorem preview_leaves_catalog:
  "fst (show_translations e db add) = db \<and>
   fst (translate_missing e db lang) = db \<and>
   snd (show_translations e' (fst (show_translations e db add)) add') =
     snd (show_translations e' db add') \<and>
   filled_count (collect (translations_table (fst (show_translations e db add)))) langs =
     filled_count (collect (translations_table db)) langs \<and>
   (case snd (show_translations e db add) of
      Inr (Page pg) \<Rightarrow>
        p_filled_count pg = filled_count (collect (translations_table db)) (p_langs pg)
    | _ \<Rightarrow> True)"
  using show_translations_counts[where e=e and db=db and add=add]
  by (simp add: show_translations_db translate_missing_db split: sum.splits response.splits)

lemma example_collect:
  "collect rows_example =
     [(lit ''welcome'', [(lit ''ru'', lit ''Zdravstvujte'')]),
      (lit ''greeting'', [(lit ''ru'', lit ''Privet''), (lit ''en'', lit ''Hello'')]),
      (lit ''bye'', [(lit ''ru'', lit ''Poka'')])]"
  by (simp add: collect_def rows_example_def set_text_def dd_get_def lit_def)

lemma example_preview_langs:
  "select_langs [lang_ru, lang_en] (used_lang_codes rows_example) (Some lang_en) = [lang_ru, lang_en]"
  by (simp add: select_langs_def lang_ru_def lang_en_def lit_def)

lemma example_filled:
  "filled_count (collect rows_example) [lang_ru, lang_en] = [(lit ''ru'', 2), (lit ''en'', 1)]"
  unfolding example_collect
  by (simp add: filled_count_def filtered_keys_def dict_of_def dd_get_def lang_ru_def lang_en_def
      lit_def image_iff)

lemma example_preview:
  "snd (show_translations (env_reply reply_two_lines) db_example (Some (lit ''en''))) =
   Inr (Page \<lparr>p_translations =
       [(lit ''welcome'', [(lit ''ru'', lit ''Zdravstvujte'')]),
        (lit ''greeting'', [(lit ''ru'', lit ''Privet''), (lit ''en'', lit ''Hi'')]),
        (lit ''bye'', [(lit ''ru'', lit ''Poka''), (lit ''en'', [])])],
      p_langs = [lang_ru, lang_en],
      p_missing_langs = [],
      p_selected_lang = Some lang_en,
      p_temp_translations = [(lit ''greeting'', lit ''Hi''), (lit ''bye'', [])],
      p_total_keys = 2,
      p_filled_count = [(lit ''ru'', 2), (lit ''en'', 1)],
      p_missing_count = [(lit ''ru'', 0), (lit ''en'', 1)]\<rparr>)"
proof -
  have sel: "selected_lang_of [lang_ru, lang_en] (Some (lit ''en'')) = Some lang_en"
    by (simp add: selected_lang_of_def lang_ru_def lang_en_def lit_def)
  have t: "translate_with_gpt (env_reply reply_two_lines) (ru_texts (collect rows_example))
      (lg_code lang_en) (lg_name_ru lang_en) (emoji_or_empty lang_en) =
      Inr [(lit ''greeting'', lit ''Hi''), (lit ''bye'', [])]"
    by (simp add: lang_en_def example_reply_blank)
  have total: "total_keys (collect rows_example) = 2"
    unfolding example_collect by (simp add: total_keys_def filtered_keys_def lit_def)
  have missing: "missing_count (collect rows_example) [lang_ru, lang_en] = [(lit ''ru'', 0), (lit ''en'', 1)]"
    unfolding missing_count_def example_filled total by (simp add: dict_of_def lit_def)
  have merged: "merge_preview (lg_code lang_en) [(lit ''greeting'', lit ''Hi''), (lit ''bye'', [])]
      (collect rows_example) =
       [(lit ''welcome'', [(lit ''ru'', lit ''Zdravstvujte'')]),
        (lit ''greeting'', [(lit ''ru'', lit ''Privet''), (lit ''en'', lit ''Hi'')]),
        (lit ''bye'', [(lit ''ru'', lit ''Poka''), (lit ''en'', [])])]"
    unfolding example_collect
    by (simp add: merge_preview_def set_text_def dd_get_def lang_en_def lit_def)
  have used: "lg_code lang_ru \<in> used_lang_codes rows_example"
    "lg_code lang_en \<in> used_lang_codes rows_example"
    by (simp_all add: used_lang_codes_def rows_example_def lang_ru_def lang_en_def lit_def)
  show ?thesis
    by (simp add: show_translations_def Let_def db_example_def sel t example_preview_langs
        example_filled total missing merged used)
qed

text \<open>
  The preview for English on the small catalog shows an English text for
  \<open>bye\<close>, and still 1 filled key for English, before and after.
\<close>

theorem preview_leaves_catalog_witness:
  "fst (show_translations (env_reply reply_two_lines) db_example (Some (lit ''en''))) = db_example \<and>
   (case snd (show_translations (env_reply reply_two_lines) db_example (Some (lit ''en''))) of
      Inr (Page pg) \<Rightarrow>
        map_of (dd_get (p_translations pg) (lit ''bye'')) (lit ''en'') = Some [] \<and>
        map_of (p_filled_count pg) (lit ''en'') = Some 1 \<and>
        p_filled_count pg = filled_count (collect (translations_table db_example)) (p_langs pg)
    | _ \<Rightarrow> False) \<and>
   map_of (filled_count (collect (translations_table
        (fst (show_translations (env_reply reply_two_lines) db_example (Some (lit ''en''))))))
        [lang_ru, lang_en]) (lit ''en'') = Some 1"
proof -
  note th = preview_leaves_catalog[where e="env_reply reply_two_lines" and db=db_example
      and add="Some (lit ''en'')" and langs="[lang_ru, lang_en]"]
  have db: "fst (show_translations (env_reply reply_two_lines) db_example (Some (lit ''en''))) = db_example"
    by (rule th[THEN conjunct1])
  have tbl: "translations_table db_example = rows_example" by (simp add: db_example_def)
  show ?thesis
    unfolding db example_preview tbl
    by (simp add: example_filled dd_get_def lit_def)
qed

section \<open>The backfill and the entry of an existing pair\<close>

lemma show_translations_plain:
  "case snd (show_translations e db None) of
     Inr (Page pg) \<Rightarrow> p_translations pg = collect (translations_table db)
   | _ \<Rightarrow> False"
  by (simp add: show_translations_def Let_def selected_lang_of_def)

text \<open>
  Claim C10 at a concrete catalog. The batch of the backfill for English is
  every Russian entry: \<open>welcome\<close>, and \<open>greeting\<close>, which English already
  has, next to \<open>bye\<close>. The reply brings \<open>greeting: Hi\<close>, and the insert puts
  it into row 5 beside row 4, since no unique index on key and language makes
  the \<open>IGNORE\<close> drop it: the translations page read \<open>Hello\<close> for the pair
  before the backfill and reads \<open>Hi\<close> after it.
\<close>

theorem backfill_replaces_entry_of_existing_pair:
  "join [10] (prompt_lines (flags_json (env_reply reply_two_lines))
       (ru_dict (translations_table db_example))) =
     lit ''welcome: Zdravstvujte'' @ [10] @ lit ''greeting: Privet'' @ [10] @ lit ''bye: Poka'' \<and>
   gpt_translation_handler (env_reply reply_two_lines) db_example (lit ''en'') =
     (db_example\<lparr>translations_table := rows_example @
        [\<lparr>tr_id = 5, tr_key = lit ''greeting'', tr_lang = lit ''en'', tr_text = lit ''Hi''\<rparr>]\<rparr>,
      Inr (Added 2)) \<and>
   (case snd (show_translations (env_reply reply_two_lines) db_example None) of
      Inr (Page pg) \<Rightarrow>
        map_of (dd_get (p_translations pg) (lit ''greeting'')) (lit ''en'') = Some (lit ''Hello'')
    | _ \<Rightarrow> False) \<and>
   (case snd (show_translations (env_reply reply_two_lines)
               (fst (gpt_translation_handler (env_reply reply_two_lines) db_example (lit ''en'')))
               None) of
      Inr (Page pg) \<Rightarrow>
        map_of (dd_get (p_translations pg) (lit ''greeting'')) (lit ''en'') = Some (lit ''Hi'')
    | _ \<Rightarrow> False)"
proof -
  have prompt: "join [10] (prompt_lines (flags_json (env_reply reply_two_lines))
       (ru_dict (translations_table db_example))) =
     lit ''welcome: Zdravstvujte'' @ [10] @ lit ''greeting: Privet'' @ [10] @ lit ''bye: Poka''"
    using example_prompt by (simp add: env_reply_def db_example_def)
  have before: "map_of (dd_get (collect (translations_table db_example)) (lit ''greeting'')) (lit ''en'') =
      Some (lit ''Hello'')"
    by (simp add: db_example_def example_collect dd_get_def lit_def)
  have after: "map_of (dd_get (collect (rows_example @
        [\<lparr>tr_id = 5, tr_key = lit ''greeting'', tr_lang = lit ''en'', tr_text = lit ''Hi''\<rparr>]))
        (lit ''greeting'')) (lit ''en'') = Some (lit ''Hi'')"
    by (simp add: collect_def rows_example_def set_text_def dd_get_def lit_def)
  have p1: "case snd (show_translations (env_reply reply_two_lines) db_example None) of
      Inr (Page pg) \<Rightarrow>
        map_of (dd_get (p_translations pg) (lit ''greeting'')) (lit ''en'') = Some (lit ''Hello'')
    | _ \<Rightarrow> False"
    using show_translations_plain[where e="env_reply reply_two_lines" and db=db_example] before
    by (auto split: sum.splits response.splits)
  have p2: "case snd (show_translations (env_reply reply_two_lines)
               (fst (gpt_translation_handler (env_reply reply_two_lines) db_example (lit ''en'')))
               None) of
      Inr (Page pg) \<Rightarrow>
        map_of (dd_get (p_translations pg) (lit ''greeting'')) (lit ''en'') = Some (lit ''Hi'')
    | _ \<Rightarrow> False"
    using show_translations_plain[where e="env_reply reply_two_lines"
        and db="fst (gpt_translation_handler (env_reply reply_two_lines) db_example (lit ''en''))"]
      after
    unfolding example_backfill_blank
    by (auto split: sum.splits response.splits)
  from prompt example_backfill_blank p1 p2 show ?thesis by blast
qed

end
